theory Spec2Isabelle
  imports Main "HOL-Library.Sublist"
begin

section \<open>Text\<close>

text \<open>
  SQL text is a list of characters. The Python string operations the validator and the
  execution guard use are modelled on ASCII text: \<open>str.upper\<close> maps \<open>a\<close>..\<open>z\<close> to
  \<open>A\<close>..\<open>Z\<close> and leaves every other character alone, \<open>str.isspace\<close> (also the class
  \<open>\s\<close> of \<open>re\<close>) holds for the codes 9..13, 28..31 and 32, \<open>\d\<close> is \<open>0\<close>..\<open>9\<close> and
  \<open>\w\<close> is a letter, a digit or the underscore.
\<close>

definition lowers :: string where
  "lowers = ''abcdefghijklmnopqrstuvwxyz''"

definition uppers :: string where
  "uppers = ''ABCDEFGHIJKLMNOPQRSTUVWXYZ''"

definition decimals :: string where
  "decimals = ''0123456789''"

definition to_upper :: "char \<Rightarrow> char" where
  "to_upper c = (case map_of (zip lowers uppers) c of Some u \<Rightarrow> u | None \<Rightarrow> c)"

definition upper :: "string \<Rightarrow> string" where
  "upper s = map to_upper s"

definition is_space :: "char \<Rightarrow> bool" where
  "is_space c = (c \<in> set [CHR 0x09, CHR 0x0A, CHR 0x0B, CHR 0x0C, CHR 0x0D,
                            CHR 0x1C, CHR 0x1D, CHR 0x1E, CHR 0x1F, CHR 0x20])"

definition is_digit :: "char \<Rightarrow> bool" where
  "is_digit c = (c \<in> set decimals)"

definition is_word :: "char \<Rightarrow> bool" where
  "is_word c = (c \<in> set lowers \<or> c \<in> set uppers \<or> c \<in> set decimals \<or> c = CHR ''_'')"

definition lstrip :: "string \<Rightarrow> string" where
  "lstrip s = dropWhile is_space s"

definition rstrip :: "string \<Rightarrow> string" where
  "rstrip s = rev (dropWhile is_space (rev s))"

definition strip :: "string \<Rightarrow> string" where
  "strip s = rstrip (lstrip s)"

definition endswith :: "string \<Rightarrow> string \<Rightarrow> bool" where
  "endswith s suf = suffix suf s"

definition startswith :: "string \<Rightarrow> string \<Rightarrow> bool" where
  "startswith s pre = prefix pre s"

text \<open>\<open>needle in s\<close> on strings: \<open>needle\<close> occurs as a contiguous piece of \<open>s\<close>.\<close>

fun contains :: "string \<Rightarrow> string \<Rightarrow> bool" where
  "contains needle [] = (needle = [])"
| "contains needle (x # xs) = (prefix needle (x # xs) \<or> contains needle xs)"

text \<open>\<open>int(ds)\<close> for a run of decimal digits, and \<open>str(n)\<close> for an integer.\<close>

definition digit_val :: "char \<Rightarrow> nat" where
  "digit_val c = length (takeWhile (\<lambda>d. d \<noteq> c) decimals)"

definition int_of_digits :: "string \<Rightarrow> nat" where
  "int_of_digits ds = foldl (\<lambda>a c. 10 * a + digit_val c) 0 ds"

function str_nat :: "nat \<Rightarrow> string" where
  "str_nat n = (if n < 10 then [decimals ! n] else str_nat (n div 10) @ [decimals ! (n mod 10)])"
  by pat_completeness auto
termination
  by (relation "measure (\<lambda>n. n)") auto

declare str_nat.simps [simp del]

definition str_int :: "int \<Rightarrow> string" where
  "str_int i = (if i < 0 then CHR ''-'' # str_nat (nat (- i)) else str_nat (nat i))"

section \<open>Regular expressions\<close>

text \<open>
  The patterns of the source are sequences of four kinds of item: a literal character,
  \<open>\s+\<close>, \<open>\d+\<close> and \<open>\b\<close>. \<open>match_here\<close> matches a pattern at the start of a text,
  given the character before it (for \<open>\b\<close>), and returns the piece of text each item
  took. A repeated class takes its longest run: in every pattern of the source the class
  is followed by a character outside it or ends the pattern, so the longest run is the
  one the backtracking matcher of \<open>re\<close> accepts. The flag is \<open>re.IGNORECASE\<close>.
\<close>

datatype item = Chr char | Spaces | Digits | WordB

definition same_char :: "bool \<Rightarrow> char \<Rightarrow> char \<Rightarrow> bool" where
  "same_char ci c x = (if ci then to_upper c = to_upper x else c = x)"

definition word_before :: "char option \<Rightarrow> bool" where
  "word_before p = (case p of None \<Rightarrow> False | Some c \<Rightarrow> is_word c)"

definition word_after :: "string \<Rightarrow> bool" where
  "word_after s = (case s of [] \<Rightarrow> False | x # _ \<Rightarrow> is_word x)"

definition boundary :: "char option \<Rightarrow> string \<Rightarrow> bool" where
  "boundary p s = (word_before p \<noteq> word_after s)"

fun match_here :: "bool \<Rightarrow> item list \<Rightarrow> char option \<Rightarrow> string \<Rightarrow> string list option" where
  "match_here ci [] p s = Some []"
| "match_here ci (Chr c # r) p [] = None"
| "match_here ci (Chr c # r) p (x # s) =
     (if same_char ci c x then map_option ((#) [x]) (match_here ci r (Some x) s) else None)"
| "match_here ci (Spaces # r) p s =
     (let run = takeWhile is_space s in
      if run = [] then None
      else map_option ((#) run) (match_here ci r (Some (last run)) (dropWhile is_space s)))"
| "match_here ci (Digits # r) p s =
     (let run = takeWhile is_digit s in
      if run = [] then None
      else map_option ((#) run) (match_here ci r (Some (last run)) (dropWhile is_digit s)))"
| "match_here ci (WordB # r) p s =
     (if boundary p s then map_option ((#) []) (match_here ci r p s) else None)"

text \<open>
  The scan of \<open>re.search\<close>, \<open>re.findall\<close> and \<open>re.sub\<close>: from left to right, the
  leftmost match at each point, the next search starting where the match ended. The
  text is cut into plain characters and matches. Every pattern of the source takes at
  least one character, so a match is never empty; an empty one is passed over.
\<close>

datatype chunk = Plain char | Match "string list"

function chunks :: "bool \<Rightarrow> item list \<Rightarrow> char option \<Rightarrow> string \<Rightarrow> chunk list" where
  "chunks ci pat p [] = []"
| "chunks ci pat p (x # xs) =
     (case match_here ci pat p (x # xs) of
        None \<Rightarrow> Plain x # chunks ci pat (Some x) xs
      | Some ps \<Rightarrow>
          (if concat ps = [] then Plain x # chunks ci pat (Some x) xs
           else Match ps # chunks ci pat (Some (last (concat ps)))
                                  (drop (length (concat ps)) (x # xs))))"
  by pat_completeness auto
termination
  by (relation "measure (\<lambda>(ci, pat, p, s). length s)") auto

fun matches :: "chunk list \<Rightarrow> string list list" where
  "matches [] = []"
| "matches (Plain c # cs) = matches cs"
| "matches (Match ps # cs) = ps # matches cs"

definition re_search :: "bool \<Rightarrow> item list \<Rightarrow> string \<Rightarrow> string list option" where
  "re_search ci pat s = (case matches (chunks ci pat None s) of [] \<Rightarrow> None | ps # _ \<Rightarrow> Some ps)"

definition re_findall :: "bool \<Rightarrow> item list \<Rightarrow> string \<Rightarrow> string list" where
  "re_findall ci pat s = map concat (matches (chunks ci pat None s))"

fun substitute :: "string \<Rightarrow> chunk list \<Rightarrow> string" where
  "substitute repl [] = []"
| "substitute repl (Plain c # cs) = c # substitute repl cs"
| "substitute repl (Match ps # cs) = repl @ substitute repl cs"

definition re_sub :: "bool \<Rightarrow> item list \<Rightarrow> string \<Rightarrow> string \<Rightarrow> string" where
  "re_sub ci pat repl s = substitute repl (chunks ci pat None s)"

definition lit :: "string \<Rightarrow> item list" where
  "lit s = map Chr s"

section \<open>Execution guard: the limit rewrite\<close>

text \<open>\<open>LIMIT\s+(\d+)\<close>; group 1 is the piece of the last item.\<close>

definition limit_pattern :: "item list" where
  "limit_pattern = lit ''LIMIT'' @ [Spaces, Digits]"

text \<open>
  \<open>QueryExecutor._add_limit_clause\<close>. \<open>max_rows\<close> is \<open>Config.MAX_QUERY_ROWS\<close>, an
  integer. \<open>sql_upper\<close> is taken from the text as given, before the trailing semicolon
  goes.
\<close>

definition add_limit_clause :: "int \<Rightarrow> string \<Rightarrow> string" where
  "add_limit_clause max_rows sql_query =
     (let sql_upper = strip (upper sql_query);
          sql_query1 = (if endswith sql_query '';'' then strip (butlast sql_query) else sql_query)
      in if \<not> contains ''LIMIT'' sql_upper then sql_query1 @ '' LIMIT '' @ str_int max_rows
         else (case re_search False limit_pattern sql_upper of
                 None \<Rightarrow> sql_query1
               | Some limit_match \<Rightarrow>
                   (if int (int_of_digits (last limit_match)) > max_rows
                    then re_sub True limit_pattern (''LIMIT '' @ str_int max_rows) sql_query1
                    else sql_query1)))"

section \<open>The parse tree of sqlparse\<close>

text \<open>
  \<open>sqlparse\<close> is a library outside the repository. Its parse tree is data of the model:
  a leaf token has a token type and a value, a group (\<open>TokenList\<close>) has a class and
  child tokens, and its token type is \<open>None\<close>. Of the token types only those the
  validator and the library calls it makes tell apart are named: \<open>Whitespace\<close> and
  \<open>Comment\<close> stand for these types and their subtypes, \<open>Keyword\<close> for exactly
  \<open>sqlparse.tokens.Keyword\<close>, \<open>DML\<close> for \<open>Keyword.DML\<close>. A statement is the list
  of its top-level tokens.
\<close>

datatype ttype = DML | Keyword | Whitespace | Comment | Punctuation | Name | Wildcard
  | Number | StringLit | Operator | OtherType

datatype gclass = Identifier | IdentifierList | Parenthesis | Where | Comparison
  | Function | CommentGroup | OtherGroup

datatype token = Tok ttype string | Grp gclass "token list"

type_synonym statement = "token list"

type_synonym exn = string

text \<open>
  The two library entry points whose result is not a plain reading of the tree are
  parameters: \<open>sqlparse.parse\<close>, which returns the statements of a text or raises, and
  \<open>get_real_name\<close> of a group. An exception is its message, the only part of it the
  handlers of the source use.
\<close>

record sqlparse =
  parse :: "string \<Rightarrow> exn + statement list"
  get_real_name :: "token \<Rightarrow> string option"

text \<open>\<open>str(token)\<close>: the values of the leaves, in order.\<close>

fun tok_str :: "token \<Rightarrow> string" where
  "tok_str (Tok ty v) = v"
| "tok_str (Grp g ts) = concat (map tok_str ts)"

definition stmt_str :: "statement \<Rightarrow> string" where
  "stmt_str ts = concat (map tok_str ts)"

fun is_whitespace :: "token \<Rightarrow> bool" where
  "is_whitespace (Tok ty v) = (ty = Whitespace)"
| "is_whitespace (Grp g ts) = False"

fun is_comment :: "token \<Rightarrow> bool" where
  "is_comment (Tok ty v) = (ty = Comment)"
| "is_comment (Grp g ts) = (g = CommentGroup)"

text \<open>\<open>token_first(skip_ws=True, skip_cm=True)\<close>.\<close>

definition token_first :: "token list \<Rightarrow> token option" where
  "token_first ts = find (\<lambda>t. \<not> (is_whitespace t \<or> is_comment t)) ts"

text \<open>\<open>IdentifierList.get_identifiers\<close>: the children that are neither whitespace nor a comma.\<close>

fun is_comma :: "token \<Rightarrow> bool" where
  "is_comma (Tok ty v) = (ty = Punctuation \<and> v = '','')"
| "is_comma (Grp g ts) = False"

definition get_identifiers :: "token list \<Rightarrow> token list" where
  "get_identifiers ts = filter (\<lambda>t. \<not> (is_whitespace t \<or> is_comma t)) ts"

text \<open>\<open>token.ttype is Keyword and p(token.value.upper())\<close>.\<close>

fun keyword_with :: "(string \<Rightarrow> bool) \<Rightarrow> token \<Rightarrow> bool" where
  "keyword_with p (Tok ty v) = (ty = Keyword \<and> p (upper v))"
| "keyword_with p (Grp g ts) = False"

section \<open>Schema descriptor\<close>

text \<open>
  \<open>schema_info\<close> is a dict from table name to table description; it is kept as the list
  of its items, looked up with \<open>map_of\<close>.
\<close>

record table_info =
  columns :: "string list"
  primary_key :: "string option"
  foreign_keys :: "(string \<times> string) list"

type_synonym schema = "(string \<times> table_info) list"

section \<open>Validator\<close>

subsection \<open>Statement kind\<close>

definition is_select_only :: "statement \<Rightarrow> bool" where
  "is_select_only st =
     (case token_first st of
        None \<Rightarrow> False
      | Some (Tok ty v) \<Rightarrow> ty = DML \<and> upper v = ''SELECT''
      | Some (Grp g ts) \<Rightarrow> False)"

subsection \<open>Complexity\<close>

definition qualified_join :: "string \<Rightarrow> item list" where
  "qualified_join q = [WordB] @ lit q @ [Spaces] @ lit ''JOIN'' @ [WordB]"

definition generic_join :: "item list" where
  "generic_join = [WordB] @ lit ''JOIN'' @ [WordB]"

definition join_patterns :: "item list list" where
  "join_patterns = [qualified_join ''INNER'', qualified_join ''LEFT'', qualified_join ''RIGHT'',
                    qualified_join ''FULL'', qualified_join ''CROSS'', generic_join]"

definition count_joins :: "statement \<Rightarrow> nat" where
  "count_joins st =
     (let sql_str = upper (stmt_str st)
      in foldl (\<lambda>join_count pattern. join_count + length (re_findall False pattern sql_str))
               0 join_patterns)"

text \<open>
  \<open>_count_subquery_depth\<close>: the loop over \<open>statement.tokens\<close>, with the running
  maximum. Only groups are looked at; a group whose trimmed text starts with \<open>(\<close> and
  has \<open>SELECT\<close> somewhere in its upper-cased text is walked one level deeper.
\<close>

fun depth_loop :: "token list \<Rightarrow> nat \<Rightarrow> nat \<Rightarrow> nat" where
  "depth_loop [] current_depth max_depth = max_depth"
| "depth_loop (Tok ty v # rest) current_depth max_depth = depth_loop rest current_depth max_depth"
| "depth_loop (Grp g ts # rest) current_depth max_depth =
     (let token_str = strip (tok_str (Grp g ts)) in
      if startswith token_str ''('' \<and> contains ''SELECT'' (upper token_str)
      then depth_loop rest current_depth
             (max max_depth (depth_loop ts (current_depth + 1) (current_depth + 1)))
      else depth_loop rest current_depth
             (max max_depth (depth_loop ts current_depth current_depth)))"

definition count_subquery_depth :: "statement \<Rightarrow> nat \<Rightarrow> nat" where
  "count_subquery_depth st current_depth = depth_loop st current_depth current_depth"

definition check_complexity :: "int \<Rightarrow> int \<Rightarrow> statement \<Rightarrow> string list" where
  "check_complexity max_joins max_subquery_depth st =
     (let errors = [];
          join_count = count_joins st;
          errors = (if int join_count > max_joins
                    then errors @ [''Too many JOINs: '' @ str_nat join_count
                                   @ '' (max allowed: '' @ str_int max_joins @ '')'']
                    else errors);
          subquery_depth = count_subquery_depth st 0;
          errors = (if int subquery_depth > max_subquery_depth
                    then errors @ [''Subquery nesting too deep: '' @ str_nat subquery_depth
                                   @ '' (max allowed: '' @ str_int max_subquery_depth @ '')'']
                    else errors)
      in errors)"

subsection \<open>Schema conformance\<close>

text \<open>\<open>name.strip('`"[]')\<close>: the four quoting characters go from both ends.\<close>

definition quote_chars :: string where
  "quote_chars = [CHR 0x60, CHR 0x22, CHR ''['', CHR '']'']"

definition strip_chars :: "string \<Rightarrow> string \<Rightarrow> string" where
  "strip_chars cs s = rev (dropWhile (\<lambda>c. c \<in> set cs) (rev (dropWhile (\<lambda>c. c \<in> set cs) s)))"

text \<open>\<open>name.split('.')\<close>.\<close>

fun split_on :: "char \<Rightarrow> string \<Rightarrow> string list" where
  "split_on sep [] = [[]]"
| "split_on sep (x # xs) =
     (if x = sep then [] # split_on sep xs
      else (case split_on sep xs of [] \<Rightarrow> [[x]] | part # parts \<Rightarrow> (x # part) # parts))"

text \<open>
  \<open>_get_table_name\<close>. A leaf token has no method \<open>get_real_name\<close>: the call raises
  \<open>AttributeError\<close>. A group has one (the library's).
\<close>

definition no_real_name :: exn where
  "no_real_name = [CHR 0x27] @ ''Token'' @ [CHR 0x27] @ '' object has no attribute ''
                  @ [CHR 0x27] @ ''get_real_name'' @ [CHR 0x27]"

fun get_table_name :: "sqlparse \<Rightarrow> token \<Rightarrow> exn + string option" where
  "get_table_name lib (Tok ty v) = Inl no_real_name"
| "get_table_name lib (Grp g ts) =
     (case get_real_name lib (Grp g ts) of
        None \<Rightarrow> Inr None
      | Some name \<Rightarrow> if name \<noteq> [] then Inr (Some (strip_chars quote_chars name)) else Inr None)"

text \<open>The inner loop of \<open>_extract_tables\<close> over the identifiers of a list.\<close>

fun table_names :: "sqlparse \<Rightarrow> token list \<Rightarrow> string list \<Rightarrow> exn + string list" where
  "table_names lib [] tables = Inr tables"
| "table_names lib (identifier # rest) tables =
     (case get_table_name lib identifier of
        Inl e \<Rightarrow> Inl e
      | Inr None \<Rightarrow> table_names lib rest tables
      | Inr (Some table_name) \<Rightarrow>
          table_names lib rest (if table_name \<noteq> [] then tables @ [table_name] else tables))"

text \<open>The loop of \<open>_extract_tables\<close> over \<open>statement.tokens\<close>, with its flag \<open>from_seen\<close>.\<close>

fun tables_loop :: "sqlparse \<Rightarrow> token list \<Rightarrow> bool \<Rightarrow> string list \<Rightarrow> exn + string list" where
  "tables_loop lib [] from_seen tables = Inr tables"
| "tables_loop lib (token # rest) from_seen tables =
     (case (if from_seen
            then (case token of
                    Grp IdentifierList ts \<Rightarrow> table_names lib (get_identifiers ts) tables
                  | Grp Identifier ts \<Rightarrow> table_names lib [token] tables
                  | _ \<Rightarrow> Inr tables)
            else Inr tables) of
        Inl e \<Rightarrow> Inl e
      | Inr tables1 \<Rightarrow>
          (let from_seen1 = (if from_seen then False else from_seen);
               from_seen2 = (if keyword_with (\<lambda>v. v = ''FROM'') token then True else from_seen1);
               from_seen3 = (if keyword_with (contains ''JOIN'') token then True else from_seen2)
           in tables_loop lib rest from_seen3 tables1))"

definition extract_tables :: "sqlparse \<Rightarrow> statement \<Rightarrow> exn + string list" where
  "extract_tables lib st = tables_loop lib st False []"

text \<open>
  A column reference is the pair \<open>(table, column)\<close> of the source; \<open>table\<close> is \<open>None\<close>
  for a name without a dot.
\<close>

type_synonym column_ref = "string option \<times> string"

definition parse_identifier :: "token \<Rightarrow> column_ref option" where
  "parse_identifier identifier =
     (let name = tok_str identifier in
      if contains ''.'' name
      then (let parts = split_on CHR ''.'' name in
            if length parts = 2
            then Some (Some (strip_chars quote_chars (parts ! 0)), strip_chars quote_chars (parts ! 1))
            else None)
      else (let column = strip_chars quote_chars name in
            if upper column \<notin> set [''SELECT'', ''FROM'', ''WHERE'', ''AS'', ''*'']
            then Some (None, column)
            else None))"

fun identifier_columns :: "token list \<Rightarrow> column_ref list \<Rightarrow> column_ref list" where
  "identifier_columns [] cols = cols"
| "identifier_columns (identifier # rest) cols =
     identifier_columns rest
       (case parse_identifier identifier of None \<Rightarrow> cols | Some col \<Rightarrow> cols @ [col])"

fun columns_loop :: "token list \<Rightarrow> column_ref list \<Rightarrow> column_ref list" where
  "columns_loop [] cols = cols"
| "columns_loop (token # rest) cols =
     columns_loop rest
       (case token of
          Grp IdentifierList ts \<Rightarrow> identifier_columns (get_identifiers ts) cols
        | Grp Identifier ts \<Rightarrow> identifier_columns [token] cols
        | _ \<Rightarrow> cols)"

definition extract_columns :: "statement \<Rightarrow> column_ref list" where
  "extract_columns st = columns_loop st []"

definition no_table_msg :: "string \<Rightarrow> string" where
  "no_table_msg table = ''Table '' @ [CHR 0x27] @ table @ [CHR 0x27] @ '' not found in schema''"

definition no_column_in_table_msg :: "string \<Rightarrow> string \<Rightarrow> string" where
  "no_column_in_table_msg column table =
     ''Column '' @ [CHR 0x27] @ column @ [CHR 0x27] @ '' not found in table ''
     @ [CHR 0x27] @ table @ [CHR 0x27]"

definition no_column_msg :: "string \<Rightarrow> string" where
  "no_column_msg column = ''Column '' @ [CHR 0x27] @ column @ [CHR 0x27] @ '' not found in any table''"

fun check_tables :: "schema \<Rightarrow> string list \<Rightarrow> string list \<Rightarrow> string list" where
  "check_tables schema_info [] errors = errors"
| "check_tables schema_info (table # rest) errors =
     check_tables schema_info rest
       (if map_of schema_info table = None then errors @ [no_table_msg table] else errors)"

text \<open>The search of an unqualified column through every table, stopping at the first hit.\<close>

fun found_in :: "(string \<times> table_info) list \<Rightarrow> string \<Rightarrow> bool" where
  "found_in [] column = False"
| "found_in ((tbl_name, tbl_info) # rest) column =
     (if column \<in> set (columns tbl_info) then True else found_in rest column)"

text \<open>
  The truth value of \<open>table\<close>: \<open>None\<close> and the empty string are false.
\<close>

definition truthy :: "string option \<Rightarrow> bool" where
  "truthy table = (case table of None \<Rightarrow> False | Some t \<Rightarrow> t \<noteq> [])"

definition check_column :: "schema \<Rightarrow> column_ref \<Rightarrow> string list" where
  "check_column schema_info ref =
     (case ref of (table, column) \<Rightarrow>
        (case (if truthy table then map_of schema_info (the table) else None) of
           Some tbl_info \<Rightarrow>
             (if column \<notin> set (columns tbl_info)
              then [no_column_in_table_msg column (the table)] else [])
         | None \<Rightarrow>
             (if \<not> truthy table
              then (if \<not> found_in schema_info column then [no_column_msg column] else [])
              else [])))"

fun check_columns :: "schema \<Rightarrow> column_ref list \<Rightarrow> string list \<Rightarrow> string list" where
  "check_columns schema_info [] errors = errors"
| "check_columns schema_info (ref # rest) errors =
     check_columns schema_info rest (errors @ check_column schema_info ref)"

text \<open>
  \<open>_validate_schema\<close>. Only the table extraction can raise; it runs before anything is
  appended, so the handler's message is then the whole result.
\<close>

definition validate_schema :: "sqlparse \<Rightarrow> schema \<Rightarrow> statement \<Rightarrow> string list" where
  "validate_schema lib schema_info st =
     (case extract_tables lib st of
        Inl e \<Rightarrow> [''Schema validation failed: '' @ e]
      | Inr tables \<Rightarrow>
          check_columns schema_info (extract_columns st) (check_tables schema_info tables []))"

subsection \<open>Dangerous patterns\<close>

definition dangerous_patterns :: "(item list \<times> string) list" where
  "dangerous_patterns =
     [(lit ''--'', ''SQL comments not allowed''),
      (lit ''/*'', ''Multi-line comments not allowed''),
      ([WordB] @ lit ''EXEC'' @ [WordB], ''EXEC command not allowed''),
      ([WordB] @ lit ''EXECUTE'' @ [WordB], ''EXECUTE command not allowed''),
      ([WordB] @ lit ''INTO'' @ [Spaces] @ lit ''OUTFILE'' @ [WordB], ''INTO OUTFILE not allowed''),
      ([WordB] @ lit ''LOAD_FILE'' @ [WordB], ''LOAD_FILE not allowed'')]"

definition multiple_statements_msg :: string where
  "multiple_statements_msg = ''Multiple SQL statements not allowed''"

fun pattern_errors :: "(item list \<times> string) list \<Rightarrow> string \<Rightarrow> string list \<Rightarrow> string list" where
  "pattern_errors [] sql_upper errors = errors"
| "pattern_errors ((pattern, message) # rest) sql_upper errors =
     pattern_errors rest sql_upper
       (if re_search False pattern sql_upper \<noteq> None then errors @ [message] else errors)"

definition check_dangerous_patterns :: "string \<Rightarrow> string list" where
  "check_dangerous_patterns sql_query =
     (let sql_upper = upper sql_query;
          errors = (if contains '';'' (butlast sql_query) then [multiple_statements_msg] else [])
      in pattern_errors dangerous_patterns sql_upper errors)"

subsection \<open>validate\<close>

text \<open>
  \<open>SQLValidator.validate\<close>; \<open>max_joins\<close> and \<open>max_subquery_depth\<close> are the limits of
  \<open>Config\<close>. An exception of the parser is caught by the handler at the end.
\<close>

definition validate ::
  "sqlparse \<Rightarrow> schema \<Rightarrow> int \<Rightarrow> int \<Rightarrow> string \<Rightarrow> bool \<times> string list" where
  "validate lib schema_info max_joins max_subquery_depth sql_query =
     (case parse lib sql_query of
        Inl e \<Rightarrow> (False, [''Validation failed: '' @ e])
      | Inr [] \<Rightarrow> (False, [''Invalid SQL syntax''])
      | Inr (st # _) \<Rightarrow>
          (let errors = [];
               errors = (if \<not> is_select_only st
                         then errors @ [''Only SELECT queries are allowed''] else errors);
               errors = errors @ check_complexity max_joins max_subquery_depth st;
               errors = errors @ validate_schema lib schema_info st;
               errors = errors @ check_dangerous_patterns sql_query
           in (errors = [], errors)))"

subsection \<open>Cost estimate\<close>

definition calculate_complexity_score :: "statement \<Rightarrow> nat" where
  "calculate_complexity_score st =
     (let score = 1;
          score = score + count_joins st * 2;
          score = score + count_subquery_depth st 0 * 3;
          sql_str = upper (stmt_str st);
          score = (if contains ''GROUP BY'' sql_str then score + 2 else score);
          score = (if contains ''ORDER BY'' sql_str then score + 1 else score);
          score = (if contains ''DISTINCT'' sql_str then score + 1 else score)
      in score)"

text \<open>The metrics are a dict from field name to an integer or a boolean.\<close>

datatype metric = IntV int | BoolV bool

definition estimate_cost :: "sqlparse \<Rightarrow> string \<Rightarrow> (string \<rightharpoonup> metric)" where
  "estimate_cost lib sql_query =
     (case parse lib sql_query of
        Inl e \<Rightarrow> [''estimated_complexity'' \<mapsto> IntV 0]
      | Inr [] \<Rightarrow> [''estimated_complexity'' \<mapsto> IntV 0]
      | Inr (parsed # _) \<Rightarrow>
          [''join_count'' \<mapsto> IntV (int (count_joins parsed)),
           ''subquery_depth'' \<mapsto> IntV (int (count_subquery_depth parsed 0)),
           ''has_aggregation'' \<mapsto> BoolV (contains ''GROUP BY'' (upper sql_query)),
           ''has_order'' \<mapsto> BoolV (contains ''ORDER BY'' (upper sql_query)),
           ''estimated_complexity'' \<mapsto> IntV (int (calculate_complexity_score parsed))])"

section \<open>Execution guard: running the query\<close>

text \<open>
  The database is a parameter: what connecting and running the rewritten query under
  the deadline comes to. A row is the list of its (column, value) items in the order
  the cursor reports; the clock reading, in milliseconds since the start, is a
  parameter too.
\<close>

datatype 'v db_outcome = DatabaseError exn | OtherError exn | TimedOut
  | Fetched "(string \<times> 'v) list list"

record 'v execution_result =
  success :: bool
  data :: "(string \<times> 'v) list list"
  columns :: "string list"
  row_count :: nat
  execution_time_ms :: int
  truncated :: bool
  error :: "string option"

definition execute_query ::
  "int \<Rightarrow> int \<Rightarrow> (string \<Rightarrow> 'v db_outcome) \<Rightarrow> int \<Rightarrow> string \<Rightarrow> 'v execution_result" where
  "execute_query max_rows query_timeout db elapsed_ms sql_query =
     (let limited_query = add_limit_clause max_rows sql_query;
          result = \<lparr>success = False, data = [], columns = [], row_count = 0,
                    execution_time_ms = 0, truncated = False, error = None\<rparr>
      in case db limited_query of
           DatabaseError e \<Rightarrow>
             \<lparr>success = False, data = [], columns = [], row_count = 0,
              execution_time_ms = elapsed_ms, truncated = False,
              error = Some (''Database error: '' @ e)\<rparr>
         | OtherError e \<Rightarrow>
             \<lparr>success = False, data = [], columns = [], row_count = 0,
              execution_time_ms = elapsed_ms, truncated = False,
              error = Some (''Execution error: '' @ e)\<rparr>
         | TimedOut \<Rightarrow>
             result\<lparr>error := Some (''Query exceeded timeout of '' @ str_int query_timeout
                                    @ '' seconds''),
                    execution_time_ms := elapsed_ms\<rparr>
         | Fetched rows \<Rightarrow>
             (let result = (case rows of
                              [] \<Rightarrow> result
                            | first # _ \<Rightarrow>
                                result\<lparr>data := rows, columns := map fst first,
                                       row_count := length rows,
                                       truncated := (int (length rows) \<ge> max_rows)\<rparr>)
              in result\<lparr>success := True, execution_time_ms := elapsed_ms\<rparr>))"

section \<open>Example inputs\<close>

text \<open>
  A library that parses the one text \<open>sql\<close> into the statements \<open>sts\<close> and any other
  text into none, and names a group by its text.
\<close>

definition parses_as :: "string \<Rightarrow> statement list \<Rightarrow> sqlparse" where
  "parses_as sql sts =
     \<lparr>parse = (\<lambda>s. if s = sql then Inr sts else Inr []),
      get_real_name = (\<lambda>t. Some (tok_str t))\<rparr>"

text \<open>A library whose parser raises on every text.\<close>

definition raising :: "exn \<Rightarrow> sqlparse" where
  "raising e = \<lparr>parse = (\<lambda>s. Inl e), get_real_name = (\<lambda>t. None)\<rparr>"

text \<open>The tree of \<open>SELECT a FROM t\<close>.\<close>

definition select_a_from_t :: statement where
  "select_a_from_t =
     [Tok DML ''SELECT'', Tok Whitespace '' '', Grp Identifier [Tok Name ''a''],
      Tok Whitespace '' '', Tok Keyword ''FROM'', Tok Whitespace '' '',
      Grp Identifier [Tok Name ''t'']]"

text \<open>A schema with the one table \<open>t\<close> of columns \<open>a\<close> and \<open>b\<close>.\<close>

definition schema_t :: schema where
  "schema_t = [(''t'', \<lparr>table_info.columns = [''a'', ''b''], primary_key = Some ''a'',
                        foreign_keys = []\<rparr>)]"

text \<open>The tree of \<open>SELECT a FROM t; \<close>, a space after the semicolon.\<close>

definition select_a_from_t_semi :: statement where
  "select_a_from_t_semi =
     [Tok DML ''SELECT'', Tok Whitespace '' '', Grp Identifier [Tok Name ''a''],
      Tok Whitespace '' '', Tok Keyword ''FROM'', Tok Whitespace '' '',
      Grp Identifier [Tok Name ''t''], Tok Punctuation '';'', Tok Whitespace '' '']"



text \<open>The largest of a list of numbers, 0 for none.\<close>

definition max_list :: "nat list \<Rightarrow> nat" where
  "max_list ns = foldr max ns 0"

text \<open>
  The test \<open>_count_subquery_depth\<close> makes on a group, and the nesting it counts read
  off the tree: a group that passes the test is one level above the deepest of its
  children.
\<close>

definition looks_like_subquery :: "token \<Rightarrow> bool" where
  "looks_like_subquery t =
     (let token_str = strip (tok_str t)
      in startswith token_str ''('' \<and> contains ''SELECT'' (upper token_str))"

fun nesting :: "token \<Rightarrow> nat" where
  "nesting (Tok ty v) = 0"
| "nesting (Grp g ts) =
     (if looks_like_subquery (Grp g ts) then 1 else 0) + max_list (map nesting ts)"









section \<open>Properties\<close>

subsection \<open>Evaluation and text lemmas\<close>

lemmas text_defs = to_upper_def upper_def lowers_def uppers_def decimals_def is_space_def
  is_digit_def is_word_def strip_def lstrip_def rstrip_def endswith_def startswith_def
  suffix_to_prefix

lemmas regex_defs = re_search_def re_findall_def re_sub_def lit_def same_char_def
  boundary_def word_before_def word_after_def



subsection \<open>Subquery depth of a text without parentheses\<close>



subsection \<open>The validator returns structured data\<close>

text \<open>
  Claim C3. \<open>validate\<close> returns a pair of a boolean and a list of messages on every
  input; an exception of the parser becomes the one message of an invalid result; the
  boolean is true exactly when the list is empty; and when the text parses, the list
  is what the four rule families return, in their order, each one run whatever the
  ones before it found.
\<close>

theorem validate_structured:
  "(fst (validate lib schema_info max_joins max_depth sql_query)
      \<longleftrightarrow> snd (validate lib schema_info max_joins max_depth sql_query) = [])
   \<and> (\<forall>e. parse lib sql_query = Inl e \<longrightarrow>
          validate lib schema_info max_joins max_depth sql_query
            = (False, [''Validation failed: '' @ e]))
   \<and> (\<forall>st rest. parse lib sql_query = Inr (st # rest) \<longrightarrow>
          snd (validate lib schema_info max_joins max_depth sql_query) =
            (if is_select_only st then [] else [''Only SELECT queries are allowed''])
            @ check_complexity max_joins max_depth st
            @ validate_schema lib schema_info st
            @ check_dangerous_patterns sql_query)"
  by (auto simp add: validate_def Let_def split: sum.splits list.splits)

theorem validate_structured_witness:
  "parse (parses_as ''SELECT a FROM t'' [select_a_from_t]) ''SELECT a FROM t''
     = Inr (select_a_from_t # [])
   \<and> snd (validate (parses_as ''SELECT a FROM t'' [select_a_from_t]) [] 3 3 ''SELECT a FROM t'') =
       (if is_select_only select_a_from_t then [] else [''Only SELECT queries are allowed''])
       @ check_complexity 3 3 select_a_from_t
       @ validate_schema (parses_as ''SELECT a FROM t'' [select_a_from_t]) [] select_a_from_t
       @ check_dangerous_patterns ''SELECT a FROM t''
   \<and> parse (raising ''too deep'') ''((('' = Inl ''too deep''
   \<and> validate (raising ''too deep'') [] 3 3 ''((('' = (False, [''Validation failed: '' @ ''too deep''])"
proof (intro conjI)
  show h: "parse (parses_as ''SELECT a FROM t'' [select_a_from_t]) ''SELECT a FROM t''
             = Inr (select_a_from_t # [])"
    by (simp add: parses_as_def)
  show r: "parse (raising ''too deep'') ''((('' = Inl ''too deep''"
    by (simp add: raising_def)
  show "snd (validate (parses_as ''SELECT a FROM t'' [select_a_from_t]) [] 3 3 ''SELECT a FROM t'') =
       (if is_select_only select_a_from_t then [] else [''Only SELECT queries are allowed''])
       @ check_complexity 3 3 select_a_from_t
       @ validate_schema (parses_as ''SELECT a FROM t'' [select_a_from_t]) [] select_a_from_t
       @ check_dangerous_patterns ''SELECT a FROM t''"
    by (rule validate_structured [THEN conjunct2, THEN conjunct2, rule_format, OF h])
  show "validate (raising ''too deep'') [] 3 3 ''((('' = (False, [''Validation failed: '' @ ''too deep''])"
    by (rule validate_structured [THEN conjunct2, THEN conjunct1, rule_format, OF r])
qed

subsection \<open>The complexity score\<close>



subsection \<open>The cost estimate on text that does not parse\<close>

text \<open>
  Claim C9, as stated, fails: on the empty text the parser returns no statement, and the
  result has the one field \<open>estimated_complexity\<close>, not five.
\<close>

theorem estimate_cost_empty_counterexample:
  "parse (parses_as ''SELECT a FROM t'' [select_a_from_t]) [] = Inr []
   \<and> dom (estimate_cost (parses_as ''SELECT a FROM t'' [select_a_from_t]) [])
       = {''estimated_complexity''}
   \<and> ''join_count'' \<notin> dom (estimate_cost (parses_as ''SELECT a FROM t'' [select_a_from_t]) [])"
  by (simp add: parses_as_def estimate_cost_def)

text \<open>
  Claim C9, amended. \<open>estimate_cost\<close> returns a dict on every input. When the parser
  returns at least one statement the dict has exactly the five fields; when the parser
  returns none or raises, the dict has the one field \<open>estimated_complexity\<close>, which is 0.
\<close>

theorem estimate_cost_fields:
  "(\<forall>st rest. parse lib sql_query = Inr (st # rest) \<longrightarrow>
        dom (estimate_cost lib sql_query) =
          {''join_count'', ''subquery_depth'', ''has_aggregation'', ''has_order'',
           ''estimated_complexity''})
   \<and> ((parse lib sql_query = Inr [] \<or> (\<exists>e. parse lib sql_query = Inl e)) \<longrightarrow>
        estimate_cost lib sql_query = [''estimated_complexity'' \<mapsto> IntV 0])"
  by (auto simp add: estimate_cost_def split: sum.splits list.splits if_splits)

theorem estimate_cost_fields_witness:
  "parse (parses_as ''SELECT a FROM t'' [select_a_from_t]) ''SELECT a FROM t''
     = Inr (select_a_from_t # [])
   \<and> dom (estimate_cost (parses_as ''SELECT a FROM t'' [select_a_from_t]) ''SELECT a FROM t'') =
          {''join_count'', ''subquery_depth'', ''has_aggregation'', ''has_order'',
           ''estimated_complexity''}
   \<and> parse (raising ''too deep'') ''((('' = Inl ''too deep''
   \<and> estimate_cost (raising ''too deep'') ''((('' = [''estimated_complexity'' \<mapsto> IntV 0]"
proof (intro conjI)
  show h: "parse (parses_as ''SELECT a FROM t'' [select_a_from_t]) ''SELECT a FROM t''
             = Inr (select_a_from_t # [])"
    by (simp add: parses_as_def)
  show r: "parse (raising ''too deep'') ''((('' = Inl ''too deep''"
    by (simp add: raising_def)
  show "dom (estimate_cost (parses_as ''SELECT a FROM t'' [select_a_from_t]) ''SELECT a FROM t'') =
          {''join_count'', ''subquery_depth'', ''has_aggregation'', ''has_order'',
           ''estimated_complexity''}"
    by (rule estimate_cost_fields [THEN conjunct1, rule_format, OF h])
  show "estimate_cost (raising ''too deep'') ''((('' = [''estimated_complexity'' \<mapsto> IntV 0]"
    by (rule estimate_cost_fields [THEN conjunct2, rule_format, OF disjI2, OF exI, OF r])
qed

subsection \<open>Join counting and letter case\<close>



subsection \<open>A successful query without rows\<close>

text \<open>
  Claim C10. When the database returns no row for the rewritten query, the result has
  success true, no data, no column names, a row count of 0 and truncated false.
\<close>

theorem zero_rows_result:
  assumes "db (add_limit_clause max_rows sql_query) = Fetched []"
  shows "execute_query max_rows query_timeout db elapsed_ms sql_query =
           \<lparr>success = True, data = [], columns = [], row_count = 0,
            execution_time_ms = elapsed_ms, truncated = False, error = None\<rparr>"
  using assms by (simp add: execute_query_def)

theorem zero_rows_result_witness:
  "(\<lambda>q. Fetched [] :: nat db_outcome) (add_limit_clause 1000 ''SELECT a FROM t WHERE 1 = 0'')
     = Fetched []
   \<and> execute_query 1000 30 (\<lambda>q. Fetched [] :: nat db_outcome) 7 ''SELECT a FROM t WHERE 1 = 0'' =
           \<lparr>success = True, data = [], columns = [], row_count = 0,
            execution_time_ms = 7, truncated = False, error = None\<rparr>"
  using zero_rows_result
    [of "\<lambda>q. Fetched [] :: nat db_outcome" 1000 "''SELECT a FROM t WHERE 1 = 0''" 30 7]
  by simp

subsection \<open>The rule against several statements\<close>

lemmas eval_defs = text_defs regex_defs validate_def is_select_only_def token_first_def
  check_complexity_def count_joins_def join_patterns_def qualified_join_def generic_join_def
  count_subquery_depth_def stmt_str_def validate_schema_def extract_tables_def
  extract_columns_def get_identifiers_def parse_identifier_def strip_chars_def quote_chars_def
  check_column_def truthy_def check_dangerous_patterns_def dangerous_patterns_def
  multiple_statements_msg_def no_column_msg_def no_column_in_table_msg_def no_table_msg_def
  parses_as_def

lemma validate_parsed:
  assumes "parse lib sql_query = Inr (st # rest)"
  shows "validate lib schema_info max_joins max_depth sql_query =
           (let errors = (if is_select_only st then [] else [''Only SELECT queries are allowed''])
                         @ check_complexity max_joins max_depth st
                         @ validate_schema lib schema_info st
                         @ check_dangerous_patterns sql_query
            in (errors = [], errors))"
  using assms by (simp add: validate_def Let_def)

lemma check_complexity_not_multiple:
  "multiple_statements_msg \<notin> set (check_complexity mj md st)"
  by (simp add: check_complexity_def Let_def multiple_statements_msg_def)

lemma check_tables_not_multiple:
  "multiple_statements_msg \<notin> set errors \<Longrightarrow>
   multiple_statements_msg \<notin> set (check_tables schema_info tables errors)"
  by (induction tables arbitrary: errors)
     (simp_all add: no_table_msg_def multiple_statements_msg_def)

lemma check_column_not_multiple:
  "multiple_statements_msg \<notin> set (check_column schema_info ref)"
  by (cases ref)
     (simp add: check_column_def no_column_msg_def no_column_in_table_msg_def
        multiple_statements_msg_def split: option.splits)

lemma check_columns_not_multiple:
  "multiple_statements_msg \<notin> set errors \<Longrightarrow>
   multiple_statements_msg \<notin> set (check_columns schema_info refs errors)"
  by (induction refs arbitrary: errors) (simp_all add: check_column_not_multiple)

lemma validate_schema_not_multiple:
  "multiple_statements_msg \<notin> set (validate_schema lib schema_info st)"
  by (simp add: validate_schema_def check_columns_not_multiple check_tables_not_multiple
      split: sum.splits)
     (simp add: multiple_statements_msg_def)

lemma pattern_errors_multiple:
  "multiple_statements_msg \<notin> snd ` set pats \<Longrightarrow>
   multiple_statements_msg \<in> set (pattern_errors pats sql_upper errors)
     \<longleftrightarrow> multiple_statements_msg \<in> set errors"
  by (induction pats arbitrary: errors) (auto split: if_splits)

lemma dangerous_multiple:
  "multiple_statements_msg \<in> set (check_dangerous_patterns sql_query)
     \<longleftrightarrow> contains '';'' (butlast sql_query)"
proof -
  have "multiple_statements_msg \<notin> snd ` set dangerous_patterns"
    by (simp add: dangerous_patterns_def multiple_statements_msg_def)
  then show ?thesis
    by (simp add: check_dangerous_patterns_def Let_def pattern_errors_multiple)
qed

text \<open>
  Claim C2, as stated, fails: \<open>validate\<close> does not trim its input. On
  \<open>SELECT a FROM t; \<close> the semicolon is the last character of the trimmed text, yet it
  stands before the last character of the text as given, and the violation is reported.
\<close>

theorem multiple_statements_trailing_space_counterexample:
  "strip ''SELECT a FROM t; '' = ''SELECT a FROM t;''
   \<and> \<not> contains '';'' (butlast (strip ''SELECT a FROM t; ''))
   \<and> validate (parses_as ''SELECT a FROM t; '' [select_a_from_t_semi]) schema_t 3 3
         ''SELECT a FROM t; ''
       = (False, [no_column_msg ''t'', ''Multiple SQL statements not allowed''])"
  by (simp add: eval_defs select_a_from_t_semi_def schema_t_def)

text \<open>
  Claim C2, amended. For every input that the parser turns into at least one statement,
  \<open>validate\<close> returns an invalid result whose list has
  \<open>Multiple SQL statements not allowed\<close> if and only if a semicolon stands before the
  last character of the text as it was passed in, untrimmed.
\<close>

theorem multiple_statements_rule:
  assumes "parse lib sql_query = Inr (st # rest)"
  shows "(\<not> fst (validate lib schema_info max_joins max_depth sql_query)
          \<and> multiple_statements_msg
              \<in> set (snd (validate lib schema_info max_joins max_depth sql_query)))
         \<longleftrightarrow> contains '';'' (butlast sql_query)"
proof -
  have "multiple_statements_msg \<noteq> ''Only SELECT queries are allowed''"
    by (simp add: multiple_statements_msg_def)
  then show ?thesis
    using check_complexity_not_multiple [of max_joins max_depth st]
      validate_schema_not_multiple [of lib schema_info st]
      dangerous_multiple [of sql_query]
    by (auto simp add: validate_parsed [OF assms] Let_def)
qed

theorem multiple_statements_rule_witness:
  "parse (parses_as ''SELECT a FROM t; '' [select_a_from_t_semi]) ''SELECT a FROM t; ''
     = Inr (select_a_from_t_semi # [])
   \<and> ((\<not> fst (validate (parses_as ''SELECT a FROM t; '' [select_a_from_t_semi]) schema_t 3 3
                  ''SELECT a FROM t; '')
        \<and> multiple_statements_msg
            \<in> set (snd (validate (parses_as ''SELECT a FROM t; '' [select_a_from_t_semi])
                          schema_t 3 3 ''SELECT a FROM t; '')))
       \<longleftrightarrow> contains '';'' (butlast ''SELECT a FROM t; ''))
   \<and> contains '';'' (butlast ''SELECT a FROM t; '')"
proof (intro conjI)
  show h: "parse (parses_as ''SELECT a FROM t; '' [select_a_from_t_semi]) ''SELECT a FROM t; ''
     = Inr (select_a_from_t_semi # [])"
    by (simp add: parses_as_def)
  show "(\<not> fst (validate (parses_as ''SELECT a FROM t; '' [select_a_from_t_semi]) schema_t 3 3
                  ''SELECT a FROM t; '')
        \<and> multiple_statements_msg
            \<in> set (snd (validate (parses_as ''SELECT a FROM t; '' [select_a_from_t_semi])
                          schema_t 3 3 ''SELECT a FROM t; '')))
       \<longleftrightarrow> contains '';'' (butlast ''SELECT a FROM t; '')"
    by (rule multiple_statements_rule [OF h])
  show "contains '';'' (butlast ''SELECT a FROM t; '')"
    by simp
qed

subsection \<open>Schema conformance of column references\<close>








subsection \<open>Subquery depth\<close>

lemma max_list_Cons [simp]: "max_list (n # ns) = max n (max_list ns)"
  by (simp add: max_list_def)

lemma max_list_Nil [simp]: "max_list [] = 0"
  by (simp add: max_list_def)






end
